theory Spec2Isabelle
  imports Main "HOL-Library.Word" "HOL-Library.Sublist"
begin

section \<open>JavaScript strings\<close>

text \<open>
  A JavaScript string is a sequence of UTF-16 code units; \<open>length\<close>, \<open>substring\<close>,
  \<open>trim\<close>, \<open>includes\<close> and the regular expressions of \<^verbatim>\<open>src/server.js\<close> (none has the
  \<open>u\<close> flag) all work on code units. String literals of the source are ASCII and are
  written with \<open>lit\<close>.
\<close>

type_synonym js_string = "16 word list"

definition lit :: "string \<Rightarrow> js_string" where
  "lit s = map of_char s"

definition nl :: string where
  "nl = [CHR 0x0A]"

text \<open>\<^verbatim>\<open>s.substring(0, n)\<close> for a constant \<open>n \<ge> 0\<close>: the first \<open>n\<close> code units, the whole
  string when it is shorter.\<close>

definition substring0 :: "js_string \<Rightarrow> nat \<Rightarrow> js_string" where
  "substring0 s n = take n s"

text \<open>\<^verbatim>\<open>String.prototype.trim\<close> strips the code points of WhiteSpace and LineTerminator
  from both ends: TAB, LF, VT, FF, CR, SP, NBSP, U+1680, U+2000..U+200A, U+2028, U+2029,
  U+202F, U+205F, U+3000 and U+FEFF.\<close>

definition is_js_space :: "16 word \<Rightarrow> bool" where
  "is_js_space c =
     (if 0x2000 \<le> c \<and> c \<le> 0x200A then True
      else c \<in> set [0x09, 0x0A, 0x0B, 0x0C, 0x0D, 0x20, 0xA0, 0x1680,
                      0x2028, 0x2029, 0x202F, 0x205F, 0x3000, 0xFEFF])"

definition trim :: "js_string \<Rightarrow> js_string" where
  "trim s = rev (dropWhile is_js_space (rev (dropWhile is_js_space s)))"

text \<open>\<^verbatim>\<open>s.includes(sub)\<close>: \<open>sub\<close> occurs in \<open>s\<close> as a contiguous run.\<close>

fun js_includes :: "js_string \<Rightarrow> js_string \<Rightarrow> bool" where
  "js_includes [] sub = (sub = [])"
| "js_includes (c # cs) sub = (if prefix sub (c # cs) then True else js_includes cs sub)"

text \<open>Decimal text of an integer, as a template literal prints a status code, a byte count
  or a millisecond count (\<open>Number\<close> values of magnitude below \<open>10^21\<close> print without
  exponent).\<close>

definition digit_unit :: "nat \<Rightarrow> 16 word" where
  "digit_unit d = of_nat (48 + d)"

fun show_nat :: "nat \<Rightarrow> js_string" where
  "show_nat n = (if n < 10 then [digit_unit n] else show_nat (n div 10) @ [digit_unit (n mod 10)])"

declare show_nat.simps [simp del]

definition show_int :: "int \<Rightarrow> js_string" where
  "show_int i = (if i < 0 then lit ''-'' @ show_nat (nat (- i)) else show_nat (nat i))"

section \<open>Configuration\<close>

text \<open>
  \<^verbatim>\<open>const PREVIEW_LENGTH = 300;\<close>
  \<^verbatim>\<open>const REQUEST_TIMEOUT = parseInt(process.env.REQUEST_TIMEOUT) || 120000;\<close>
  The argument of \<open>REQUEST_TIMEOUT_init\<close> is the value of \<open>parseInt\<close>: \<open>None\<close> for \<open>NaN\<close>
  (variable unset or not a number). \<open>NaN\<close> and \<open>0\<close> are falsy, so both give the default.
\<close>

definition PREVIEW_LENGTH :: nat where
  "PREVIEW_LENGTH = 300"

definition REQUEST_TIMEOUT_init :: "int option \<Rightarrow> int" where
  "REQUEST_TIMEOUT_init parsed =
     (case parsed of None \<Rightarrow> 120000 | Some n \<Rightarrow> if n = 0 then 120000 else n)"

text \<open>The process-wide constants the handler reads. \<open>timeout_seconds_text\<close> is the text
  JavaScript prints for \<^verbatim>\<open>REQUEST_TIMEOUT/1000\<close> (a floating-point division).\<close>

record config =
  OLLAMA_MODEL :: js_string
  REQUEST_TIMEOUT :: int
  timeout_seconds_text :: js_string

text \<open>
  \<^verbatim>\<open>const timeoutId = setTimeout(() => { ...; controller.abort(); }, REQUEST_TIMEOUT);\<close>
  Node sets a delay below 1 or above \<open>2^31 - 1\<close> to 1 millisecond.
\<close>

definition timer_delay :: "int \<Rightarrow> nat" where
  "timer_delay ms = (if 1 \<le> ms \<and> ms \<le> 2147483647 then nat ms else 1)"

section \<open>The upload filter\<close>

text \<open>
  \<^verbatim>\<open>const allowedTypes = /\.(js|ts|py|java|cpp|c|go|rs|php|rb|jsx|tsx|html|css|json|yaml|yml)$/i;\<close>
  \<^verbatim>\<open>if (allowedTypes.test(file.originalname)) cb(null, true)\<close>
  \<^verbatim>\<open>else cb(new Error("Only code files are allowed"));\<close>
  The pattern is anchored at the end of the name only, and without the \<open>u\<close> flag \<open>/i\<close>
  identifies exactly the ASCII letters of both cases with the letters of the pattern.
\<close>

definition allowed_extensions :: "string list" where
  "allowed_extensions =
     [''js'', ''ts'', ''py'', ''java'', ''cpp'', ''c'', ''go'', ''rs'', ''php'', ''rb'',
      ''jsx'', ''tsx'', ''html'', ''css'', ''json'', ''yaml'', ''yml'']"

definition ascii_lower :: "16 word \<Rightarrow> 16 word" where
  "ascii_lower c = (if 0x41 \<le> c \<and> c \<le> 0x5A then c + 0x20 else c)"

definition allowedTypes_test :: "js_string \<Rightarrow> bool" where
  "allowedTypes_test name =
     list_ex (\<lambda>e. suffix (lit (''.'' @ e)) (map ascii_lower name)) allowed_extensions"

section \<open>Requests, responses and the environment of one request\<close>

text \<open>A thrown JavaScript error: its \<open>name\<close> and its \<open>message\<close>.\<close>

datatype js_error = JsError (err_name: js_string) (err_message: js_string)

definition new_Error :: "js_string \<Rightarrow> js_error" where
  "new_Error msg = JsError (lit ''Error'') msg"

text \<open>The error with which \<open>fetch\<close> rejects when its \<open>signal\<close> is aborted (node-fetch's
  \<open>AbortError\<close>).\<close>

definition abort_error :: js_error where
  "abort_error = JsError (lit ''AbortError'') (lit ''The operation was aborted.'')"

text \<open>The error of \<open>unlink\<close> on a file that is no longer there.\<close>

definition enoent_error :: js_error where
  "enoent_error = JsError (lit ''Error'') (lit ''ENOENT: no such file or directory, unlink'')"

text \<open>The file part of a multipart request under the field \<open>file\<close>, with the file name as
  the client sent it, and \<open>req.file\<close> as multer's disk storage hands it to the handler.\<close>

record upload_part =
  part_filename :: js_string
  part_size :: nat

record multer_file =
  originalname :: js_string
  path :: js_string
  file_size :: nat

text \<open>
  A value of \<open>data.response\<close> that is truthy and not a string (a number, \<open>true\<close>, an
  array, an object). The handler uses it in three ways: template literals convert it and
  its \<open>length\<close> to text (lines 213 and 229), which throws for an object that cannot be
  converted; line 247 compares its \<open>length\<close> with \<open>PREVIEW_LENGTH\<close>; and the response
  carries it as it is.
\<close>

record other_value =
  value_text :: "js_error + js_string"
  length_over_preview :: bool

datatype json = JStr js_string | JNum int | JBool bool | JOther other_value

type_synonym json_object = "(string \<times> json) list"

text \<open>A response is a status with a JSON object (\<open>res.status(n).json(...)\<close>), or the page
  of Express's final error handler for an error no route handled.\<close>

datatype http_body = Json json_object | Error_page js_error

datatype response = Response (status: nat) (body: http_body)

text \<open>
  How \<^verbatim>\<open>await fetch(..., { signal: controller.signal })\<close> settles when the timer does not
  abort it first: it fails on its own, or it resolves with a status once the head of the
  reply has arrived. Of a resolved reply, \<open>response.text()\<close> and \<open>response.json()\<close> may
  each reject (the error of the latter stands also for the one thrown by reading
  \<open>data.response\<close> when the body is the JSON \<open>null\<close>), and \<open>data.response\<close> is a string
  or absent (\<open>Fetch_resolved\<close>; absent stands for every falsy value) or another truthy
  value (\<open>Fetch_resolved_other\<close>).
\<close>

datatype fetch_outcome =
    Fetch_rejected js_error
  | Fetch_resolved nat "js_error + js_string" "js_error + js_string option"
  | Fetch_resolved_other nat "js_error + js_string" other_value

text \<open>
  Everything outside the handler that one request depends on: the clock, the name multer
  draws for the temporary file, and the results of the file-system and network calls.
  \<open>fetch_settles_after\<close> is the time in milliseconds from the call to the moment \<open>fetch\<close>
  settles by itself, \<open>body_arrives_after\<close> the time from the call until the body of the
  reply has been read; \<open>None\<close> is never. \<open>unlink_error\<close> is the result of the first
  \<open>unlink\<close> of the upload, \<open>unlink_retry_error\<close> that of a second one after the first
  failed.
\<close>

record env =
  requestId :: int
  tmp_filename :: js_string
  readFile_result :: "js_error + js_string"
  fetch_settles_after :: "nat option"
  fetch_result :: fetch_outcome
  body_arrives_after :: "nat option"
  duration :: int
  timestamp :: int
  iso_time :: js_string
  writeFile_error :: "js_error option"
  unlink_error :: "js_error option"
  unlink_retry_error :: "js_error option"

text \<open>The effects of a request, in the order in which they happen. Of the console output
  only the two lines of \<open>cleanupFile\<close> are kept. A trace without a response is a request
  that is never answered.\<close>

datatype event =
    Upload_stored js_string
  | Fs_readFile js_string
  | Backend_call js_string js_string
  | Timer_abort
  | Fs_writeFile js_string js_string
  | Fs_unlink js_string bool
  | Log_cleaned js_string
  | Log_cleanup_failed js_string js_string
  | Respond response

section \<open>Reading a trace\<close>

fun backend_calls :: "event list \<Rightarrow> js_string list" where
  "backend_calls [] = []"
| "backend_calls (Backend_call m p # es) = p # backend_calls es"
| "backend_calls (e # es) = backend_calls es"

fun artifact_writes :: "event list \<Rightarrow> js_string list" where
  "artifact_writes [] = []"
| "artifact_writes (Fs_writeFile p c # es) = p # artifact_writes es"
| "artifact_writes (e # es) = artifact_writes es"

fun file_reads :: "event list \<Rightarrow> js_string list" where
  "file_reads [] = []"
| "file_reads (Fs_readFile p # es) = p # file_reads es"
| "file_reads (e # es) = file_reads es"

fun responses :: "event list \<Rightarrow> response list" where
  "responses [] = []"
| "responses (Respond r # es) = r # responses es"
| "responses (e # es) = responses es"

fun unlinks :: "event list \<Rightarrow> (js_string \<times> bool) list" where
  "unlinks [] = []"
| "unlinks (Fs_unlink p ok # es) = (p, ok) # unlinks es"
| "unlinks (e # es) = unlinks es"

fun timer_aborts :: "event list \<Rightarrow> nat" where
  "timer_aborts [] = 0"
| "timer_aborts (Timer_abort # es) = Suc (timer_aborts es)"
| "timer_aborts (e # es) = timer_aborts es"

text \<open>The files whose failed removal was logged.\<close>

fun failure_logs :: "event list \<Rightarrow> js_string list" where
  "failure_logs [] = []"
| "failure_logs (Log_cleanup_failed p m # es) = p # failure_logs es"
| "failure_logs (e # es) = failure_logs es"

text \<open>The files whose \<open>unlink\<close> failed.\<close>

fun failed_unlinks :: "event list \<Rightarrow> js_string list" where
  "failed_unlinks [] = []"
| "failed_unlinks (Fs_unlink p ok # es) =
     (if ok then failed_unlinks es else p # failed_unlinks es)"
| "failed_unlinks (e # es) = failed_unlinks es"

text \<open>The field of a JSON response, \<open>None\<close> when the body is not JSON or has no such
  field.\<close>

definition field :: "response \<Rightarrow> string \<Rightarrow> json option" where
  "field r k = (case body r of Json obj \<Rightarrow> map_of obj k | Error_page e \<Rightarrow> None)"

text \<open>An \<open>unlink\<close> of \<open>p\<close> happens, and a response is sent only after it.\<close>

fun cleaned_before_response :: "js_string \<Rightarrow> event list \<Rightarrow> bool" where
  "cleaned_before_response p [] = False"
| "cleaned_before_response p (Respond r # es) = False"
| "cleaned_before_response p (Fs_unlink q ok # es) =
     (if q = p then responses es \<noteq> [] else cleaned_before_response p es)"
| "cleaned_before_response p (e # es) = cleaned_before_response p es"

section \<open>The upload middleware\<close>

text \<open>
  \<^verbatim>\<open>multer({ dest: "uploads/", limits: { fileSize: 2 * 1024 * 1024 }, fileFilter })\<close>
  \<open>upload.single("file")\<close> runs before the handler. The parser of the multipart body
  (busboy) keeps of the file name what follows the last slash or backslash, and nothing of
  a name that is then \<open>.\<close> or \<open>..\<close>; multer skips a part whose name is empty. Without a
  file part, or with a skipped one, it calls \<open>next()\<close> and leaves \<open>req.file\<close> undefined.
  Otherwise the filter sees the name first; an error of the filter or of the size limit is
  passed to \<open>next(err)\<close>, and nothing stays on disk. An accepted file is stored under
  \<open>uploads/\<close> with a generated name.
\<close>

datatype mw_result = Mw_next "multer_file option" | Mw_error js_error

definition is_separator :: "16 word \<Rightarrow> bool" where
  "is_separator c = (c \<in> set [0x2F, 0x5C])"

definition busboy_basename :: "js_string \<Rightarrow> js_string" where
  "busboy_basename name =
     (if rev (takeWhile (\<lambda>c. \<not> is_separator c) (rev name)) \<in> set [lit ''.'', lit ''..'']
      then []
      else rev (takeWhile (\<lambda>c. \<not> is_separator c) (rev name)))"

definition fileFilter :: "js_string \<Rightarrow> js_error option" where
  "fileFilter name =
     (if allowedTypes_test name then None
      else Some (new_Error (lit ''Only code files are allowed'')))"

definition fileSize_limit :: nat where
  "fileSize_limit = 2 * 1024 * 1024"

definition upload_single :: "env \<Rightarrow> upload_part option \<Rightarrow> mw_result" where
  "upload_single env part =
     (case part of
        None \<Rightarrow> Mw_next None
      | Some p \<Rightarrow>
          if busboy_basename (part_filename p) = [] then Mw_next None
          else
            (case fileFilter (busboy_basename (part_filename p)) of
               Some e \<Rightarrow> Mw_error e
             | None \<Rightarrow>
                 if fileSize_limit < part_size p
                 then Mw_error (JsError (lit ''MulterError'') (lit ''File too large''))
                 else Mw_next (Some \<lparr> originalname = busboy_basename (part_filename p),
                                       path = lit ''uploads/'' @ tmp_filename env,
                                       file_size = part_size p \<rparr>)))"

section \<open>The review handler\<close>

text \<open>
  \<^verbatim>\<open>async function cleanupFile(filePath) {\<close>
  \<^verbatim>\<open>  try { await fs.unlink(filePath); console.log(...) }\<close>
  \<^verbatim>\<open>  catch (error) { console.error(..., error.message) } }\<close>
  It never throws: a failed \<open>unlink\<close> ends in a log line. What \<open>unlink\<close> does depends on
  the \<open>unlink\<close>s of the same file before it: after one that removed the file the next
  one fails because the file is gone.
\<close>

definition unlink_result :: "env \<Rightarrow> nat \<Rightarrow> js_error option" where
  "unlink_result env earlier =
     (if earlier = 0 then unlink_error env
      else (case unlink_error env of
              None \<Rightarrow> Some enoent_error
            | Some e \<Rightarrow> unlink_retry_error env))"

definition cleanupFile :: "env \<Rightarrow> nat \<Rightarrow> js_string \<Rightarrow> event list" where
  "cleanupFile env earlier filePath =
     (case unlink_result env earlier of
        None \<Rightarrow> [Fs_unlink filePath True, Log_cleaned filePath]
      | Some e \<Rightarrow> [Fs_unlink filePath False, Log_cleanup_failed filePath (err_message e)])"

text \<open>
  \<^verbatim>\<open>const truncatedContent = fileContent.length > 5000\<close>
  \<^verbatim>\<open>  ? fileContent.substring(0, 5000) + "\n\n// ... (file truncated for review)"\<close>
  \<^verbatim>\<open>  : fileContent;\<close>
\<close>

definition truncation_marker :: js_string where
  "truncation_marker = lit (nl @ nl @ ''// ... (file truncated for review)'')"

definition truncatedContent :: "js_string \<Rightarrow> js_string" where
  "truncatedContent fileContent =
     (if 5000 < length fileContent then substring0 fileContent 5000 @ truncation_marker
      else fileContent)"

text \<open>The template literal of the prompt: fixed instructions around the file's name, then
  the content.\<close>

definition prompt_instructions :: "js_string \<Rightarrow> js_string" where
  "prompt_instructions name =
     lit ''Review this '' @ name @
     lit ('' file. Provide brief feedback on:'' @ nl @
          ''1. Code quality issues'' @ nl @
          ''2. Potential bugs'' @ nl @
          ''3. Best practice suggestions'' @ nl @ nl @
          ''Keep response concise and under 500 words.'' @ nl @ nl @
          ''Code:'' @ nl)"

definition optimizedPrompt :: "js_string \<Rightarrow> js_string \<Rightarrow> js_string" where
  "optimizedPrompt name content = prompt_instructions name @ content"

text \<open>
  \<open>reviewComments\<close> is \<open>data.response\<close>, a non-empty string or another truthy value.
  \<^verbatim>\<open>reviewComments.length > PREVIEW_LENGTH\<close>
  \<^verbatim>\<open>  ? reviewComments.substring(0, PREVIEW_LENGTH) + "..." : reviewComments\<close>
  Only a string has \<open>substring\<close>: for another value whose \<open>length\<close> is over the limit the
  call throws a \<open>TypeError\<close>.
\<close>

datatype review = Review_text js_string | Review_other other_value

definition reviewPreview :: "js_string \<Rightarrow> js_string" where
  "reviewPreview reviewComments =
     (if PREVIEW_LENGTH < length reviewComments
      then substring0 reviewComments PREVIEW_LENGTH @ lit ''...''
      else reviewComments)"

definition review_text :: "review \<Rightarrow> js_error + js_string" where
  "review_text rv = (case rv of Review_text s \<Rightarrow> Inr s | Review_other v \<Rightarrow> value_text v)"

definition preview_of :: "review \<Rightarrow> js_error + json" where
  "preview_of rv =
     (case rv of
        Review_text s \<Rightarrow> Inr (JStr (reviewPreview s))
      | Review_other v \<Rightarrow>
          if length_over_preview v
          then Inl (JsError (lit ''TypeError'')
                      (lit ''reviewComments.substring is not a function''))
          else Inr (JOther v))"

text \<open>
  \<^verbatim>\<open>path.basename(req.file.originalname).replace(/[^a-zA-Z0-9.-]/g, '_')\<close>
  \<^verbatim>\<open>path.join("uploads", `review_${timestamp}_${sanitizedFilename}.md`)\<close>
  \<open>path\<close> is the POSIX one (the image is \<open>node:20\<close>): the base name is what follows the
  last slash once trailing slashes are dropped. The joined name has no slash and is not a
  dot segment, so normalisation leaves it as it is.
\<close>

definition path_basename :: "js_string \<Rightarrow> js_string" where
  "path_basename p =
     rev (takeWhile (\<lambda>c. c \<noteq> 0x2F) (dropWhile (\<lambda>c. c = 0x2F) (rev p)))"

definition is_safe_unit :: "16 word \<Rightarrow> bool" where
  "is_safe_unit c =
     (if 0x61 \<le> c \<and> c \<le> 0x7A then True
      else if 0x41 \<le> c \<and> c \<le> 0x5A then True
      else if 0x30 \<le> c \<and> c \<le> 0x39 then True
      else c \<in> set [0x2E, 0x2D])"

definition sanitizedFilename :: "js_string \<Rightarrow> js_string" where
  "sanitizedFilename name =
     map (\<lambda>c. if is_safe_unit c then c else 0x5F) (path_basename name)"

definition mdPath :: "env \<Rightarrow> multer_file \<Rightarrow> js_string" where
  "mdPath env f =
     lit ''uploads/'' @ lit ''review_'' @ show_int (timestamp env) @ lit ''_'' @
     sanitizedFilename (originalname f) @ lit ''.md''"

definition reviewContent ::
  "config \<Rightarrow> env \<Rightarrow> multer_file \<Rightarrow> js_string \<Rightarrow> js_string \<Rightarrow> js_string" where
  "reviewContent cfg env f fileContent reviewComments =
     lit ''# Code Review: '' @ originalname f @ lit (nl @ nl) @
     lit ''**Generated by:** '' @ OLLAMA_MODEL cfg @ lit (''  '' @ nl) @
     lit ''**Timestamp:** '' @ iso_time env @ lit (''  '' @ nl) @
     lit ''**Processing time:** '' @ show_int (duration env) @ lit (''ms  '' @ nl) @
     lit ''**File size:** '' @ show_nat (file_size f) @ lit ('' bytes  '' @ nl @ nl) @
     lit (''---'' @ nl @ nl) @ reviewComments @ lit (nl @ nl @ ''---'' @ nl @ nl) @
     lit ''*Original file '' @
     (if 5000 < length fileContent then lit ''was truncated'' else lit ''reviewed in full'') @
     lit (''*'' @ nl)"

text \<open>The object of lines 242 to 253, with the preview as computed.\<close>

definition success_response ::
  "config \<Rightarrow> env \<Rightarrow> multer_file \<Rightarrow> js_string \<Rightarrow> json \<Rightarrow> response" where
  "success_response cfg env f fileContent preview =
     Response 200 (Json
       [(''message'', JStr (lit ''Review generated successfully'')),
        (''model'', JStr (OLLAMA_MODEL cfg)),
        (''processingTime'', JStr (show_int (duration env) @ lit ''ms'')),
        (''reviewFile'', JStr (mdPath env f)),
        (''reviewPreview'', preview),
        (''originalFile'', JStr (originalname f)),
        (''requestId'', JNum (requestId env)),
        (''truncated'', JBool (5000 < length fileContent))])"

text \<open>
  The body of \<open>try\<close> is a chain of steps. A step returns the effects it had and how it
  ended: it completed (its response is among its effects), it threw, or it waits for a
  promise that never settles.
\<close>

datatype ending = Returned | Threw js_error | Pending

type_synonym steps = "event list \<times> ending"

text \<open>Lines 212 to 253: convert the review to text, write the Markdown file, remove the
  upload, build the answer and send it.\<close>

definition save_and_respond ::
  "config \<Rightarrow> env \<Rightarrow> multer_file \<Rightarrow> js_string \<Rightarrow> review \<Rightarrow> steps" where
  "save_and_respond cfg env f fileContent reviewComments =
     (case review_text reviewComments of
        Inl e \<Rightarrow> ([], Threw e)
      | Inr text \<Rightarrow>
          (case writeFile_error env of
             Some e \<Rightarrow>
               ([Fs_writeFile (mdPath env f) (reviewContent cfg env f fileContent text)],
                Threw e)
           | None \<Rightarrow>
               (case preview_of reviewComments of
                  Inl e \<Rightarrow>
                    ([Fs_writeFile (mdPath env f) (reviewContent cfg env f fileContent text)]
                     @ cleanupFile env 0 (path f),
                     Threw e)
                | Inr preview \<Rightarrow>
                    ([Fs_writeFile (mdPath env f) (reviewContent cfg env f fileContent text)]
                     @ cleanupFile env 0 (path f)
                     @ [Respond (success_response cfg env f fileContent preview)],
                     Returned))))"

text \<open>
  Lines 194 to 213, after \<open>fetch\<close> has resolved and the timer has been cleared: both
  \<open>response.text()\<close> and \<open>response.json()\<close> wait for the body, with no deadline.
  \<open>response.ok\<close> is a status from 200 to 299; an absent or empty \<open>data.response\<close> is falsy.
\<close>

definition after_response ::
  "config \<Rightarrow> env \<Rightarrow> multer_file \<Rightarrow> js_string \<Rightarrow> nat \<Rightarrow> js_error + js_string \<Rightarrow>
   js_error + review option \<Rightarrow> steps" where
  "after_response cfg env f fileContent st text_result json_result =
     (case body_arrives_after env of
        None \<Rightarrow> ([], Pending)
      | Some ms \<Rightarrow>
          if 200 \<le> st \<and> st \<le> 299 then
            (case json_result of
               Inl e \<Rightarrow> ([], Threw e)
             | Inr data_response \<Rightarrow>
                 (case data_response of
                    None \<Rightarrow> ([], Threw (new_Error (lit ''Invalid response from Ollama API'')))
                  | Some reviewComments \<Rightarrow>
                      if reviewComments = Review_text []
                      then ([], Threw (new_Error (lit ''Invalid response from Ollama API'')))
                      else save_and_respond cfg env f fileContent reviewComments))
          else
            (case text_result of
               Inl e \<Rightarrow> ([], Threw e)
             | Inr errorText \<Rightarrow>
                 ([], Threw (new_Error
                    (lit ''Ollama API error: '' @ show_nat st @ lit '' - '' @ errorText)))))"

text \<open>
  Lines 151 to 194: build the prompt, start the timer, call the backend. The timer runs
  from the call until \<open>fetch\<close> settles, when line 194 clears it. If \<open>fetch\<close> has not
  settled when the delay is over, the callback aborts the call and \<open>fetch\<close> rejects with
  the abort error; a tie goes to the timer.
\<close>

definition timer_fires_first :: "config \<Rightarrow> env \<Rightarrow> bool" where
  "timer_fires_first cfg env =
     (case fetch_settles_after env of
        None \<Rightarrow> True
      | Some ms \<Rightarrow> timer_delay (REQUEST_TIMEOUT cfg) \<le> ms)"

definition text_review :: "js_error + js_string option \<Rightarrow> js_error + review option" where
  "text_review json_result =
     (case json_result of
        Inl e \<Rightarrow> Inl e
      | Inr data_response \<Rightarrow>
          (case data_response of None \<Rightarrow> Inr None | Some s \<Rightarrow> Inr (Some (Review_text s))))"

definition call_backend :: "config \<Rightarrow> env \<Rightarrow> multer_file \<Rightarrow> js_string \<Rightarrow> steps" where
  "call_backend cfg env f fileContent =
     (if timer_fires_first cfg env
      then ([Backend_call (OLLAMA_MODEL cfg)
               (optimizedPrompt (originalname f) (truncatedContent fileContent)),
             Timer_abort],
            Threw abort_error)
      else
        (case fetch_result env of
           Fetch_rejected e \<Rightarrow>
             ([Backend_call (OLLAMA_MODEL cfg)
                 (optimizedPrompt (originalname f) (truncatedContent fileContent))],
              Threw e)
         | Fetch_resolved st text_result json_result \<Rightarrow>
             (case after_response cfg env f fileContent st text_result
                     (text_review json_result) of
                (evs, ended) \<Rightarrow>
                  (Backend_call (OLLAMA_MODEL cfg)
                     (optimizedPrompt (originalname f) (truncatedContent fileContent)) # evs,
                   ended))
         | Fetch_resolved_other st text_result v \<Rightarrow>
             (case after_response cfg env f fileContent st text_result
                     (Inr (Some (Review_other v))) of
                (evs, ended) \<Rightarrow>
                  (Backend_call (OLLAMA_MODEL cfg)
                     (optimizedPrompt (originalname f) (truncatedContent fileContent)) # evs,
                   ended))))"

text \<open>Lines 136 to 149: read the upload and check its content.\<close>

definition review_steps :: "config \<Rightarrow> env \<Rightarrow> multer_file \<Rightarrow> steps" where
  "review_steps cfg env f =
     (case readFile_result env of
        Inl e \<Rightarrow> ([Fs_readFile (path f)], Threw e)
      | Inr fileContent \<Rightarrow>
          if length (trim fileContent) = 0
          then ([Fs_readFile (path f)], Threw (new_Error (lit ''File appears to be empty'')))
          else if 10000 < length fileContent
          then ([Fs_readFile (path f)],
                Threw (new_Error (lit
                  ''File too large for review (max 10KB). Please upload smaller files.'')))
          else (case call_backend cfg env f fileContent of
                  (evs, ended) \<Rightarrow> (Fs_readFile (path f) # evs, ended)))"

text \<open>Lines 255 to 279, the \<open>catch\<close> block. \<open>filePath\<close> is \<open>None\<close> for \<open>null\<close>, and an
  empty string is falsy too; \<open>earlier\<close> is the number of \<open>unlink\<close>s of the upload that
  the body of \<open>try\<close> has made.\<close>

definition catch_block ::
  "config \<Rightarrow> env \<Rightarrow> js_string option \<Rightarrow> nat \<Rightarrow> js_error \<Rightarrow> event list" where
  "catch_block cfg env filePath earlier error =
     (case filePath of
        None \<Rightarrow> []
      | Some p \<Rightarrow> if p = [] then [] else cleanupFile env earlier p)
     @ [Respond
         (if js_includes (err_message error) (lit ''Only code files are allowed'')
          then Response 400 (Json [(''error'', JStr (err_message error))])
          else if err_name error = lit ''AbortError''
          then Response 408 (Json
                 [(''error'', JStr (lit ''Request timeout - Model took longer than '' @
                                     timeout_seconds_text cfg @ lit '' seconds'')),
                  (''suggestion'', JStr (lit
                     ''Try uploading a smaller file or increase REQUEST_TIMEOUT environment variable'')),
                  (''requestId'', JNum (requestId env))])
          else Response 500 (Json
                 [(''error'', JStr (lit ''Failed to generate review'')),
                  (''details'', JStr (err_message error)),
                  (''requestId'', JNum (requestId env))]))]"

text \<open>The handler: without \<open>req.file\<close> it answers 400 at once, with \<open>filePath\<close> still
  \<open>null\<close>; otherwise \<open>filePath\<close> is set before anything can throw. A body that waits
  for ever sends nothing more.\<close>

definition review_handler :: "config \<Rightarrow> env \<Rightarrow> multer_file option \<Rightarrow> event list" where
  "review_handler cfg env file =
     (case file of
        None \<Rightarrow> [Respond (Response 400 (Json [(''error'', JStr (lit ''No file uploaded''))]))]
      | Some f \<Rightarrow>
          (case review_steps cfg env f of
             (evs, ended) \<Rightarrow>
               (case ended of
                  Returned \<Rightarrow> evs
                | Pending \<Rightarrow> evs
                | Threw error \<Rightarrow>
                    evs @ catch_block cfg env (Some (path f)) (length (unlinks evs)) error)))"

text \<open>
  \<^verbatim>\<open>app.post("/review", upload.single("file"), async (req, res) => { ... })\<close>
  An error passed to \<open>next\<close> by the middleware skips the handler. The application
  registers no error-handling middleware, so Express's final handler answers; the errors
  of the middleware carry no \<open>status\<close>, which makes the status 500.
\<close>

definition review_route :: "config \<Rightarrow> env \<Rightarrow> upload_part option \<Rightarrow> event list" where
  "review_route cfg env part =
     (case upload_single env part of
        Mw_error e \<Rightarrow> [Respond (Response 500 (Error_page e))]
      | Mw_next file \<Rightarrow>
          (case file of None \<Rightarrow> [] | Some f \<Rightarrow> [Upload_stored (path f)])
          @ review_handler cfg env file)"

section \<open>A sample request\<close>

text \<open>A small Python file, reviewed by a backend that answers within a second.\<close>

definition sample_config :: config where
  "sample_config =
     \<lparr> OLLAMA_MODEL = lit ''llama3.2:1b'',
       REQUEST_TIMEOUT = REQUEST_TIMEOUT_init None,
       timeout_seconds_text = lit ''120'' \<rparr>"

definition sample_part :: upload_part where
  "sample_part = \<lparr> part_filename = lit ''main.py'', part_size = 8 \<rparr>"

definition sample_env :: env where
  "sample_env =
     \<lparr> requestId = 1700000000000,
       tmp_filename = lit ''0f3a9c5e7b1d2f4a6c8e0b2d4f6a8c0e'',
       readFile_result = Inr (lit ''print(1)''),
       fetch_settles_after = Some 850,
       fetch_result = Fetch_resolved 200 (Inr (lit ''{}'')) (Inr (Some (lit ''Looks fine.''))),
       body_arrives_after = Some 851,
       duration = 850,
       timestamp = 1700000000851,
       iso_time = lit ''2023-11-14T22:13:20.851Z'',
       writeFile_error = None,
       unlink_error = None,
       unlink_retry_error = None \<rparr>"

text \<open>\<open>req.file\<close> for the sample upload.\<close>

definition sample_file :: multer_file where
  "sample_file =
     \<lparr> originalname = lit ''main.py'',
       path = lit ''uploads/'' @ lit ''0f3a9c5e7b1d2f4a6c8e0b2d4f6a8c0e'',
       file_size = 8 \<rparr>"

text \<open>Variations of the sample: the same file sent with a directory in its name; a file of
  6000 letters, one of 10001 letters, a file of blanks; a review of 400 letters; a backend
  whose reply starts after the deadline, one whose reply starts in time and ends after
  the deadline, one that answers with an object in place of the text; and an upload that
  cannot be removed.\<close>

definition nested_part :: upload_part where
  "nested_part = \<lparr> part_filename = lit ''src/main.py'', part_size = 8 \<rparr>"

definition long_part :: upload_part where
  "long_part = nested_part\<lparr>part_size := 6000\<rparr>"

definition long_file :: multer_file where
  "long_file = sample_file\<lparr>file_size := 6000\<rparr>"

definition long_file_env :: env where
  "long_file_env = sample_env\<lparr>readFile_result := Inr (replicate 6000 0x61)\<rparr>"

definition oversized_file_env :: env where
  "oversized_file_env = sample_env\<lparr>readFile_result := Inr (replicate 10001 0x61)\<rparr>"

definition blank_content :: js_string where
  "blank_content = lit (''  '' @ nl @ ''     '')"

definition long_review_env :: env where
  "long_review_env =
     sample_env\<lparr>fetch_result :=
       Fetch_resolved 200 (Inr (lit ''{}'')) (Inr (Some (replicate 400 0x61)))\<rparr>"

definition timeout_env :: env where
  "timeout_env = sample_env\<lparr>fetch_settles_after := Some 125000\<rparr>"

definition late_body_env :: env where
  "late_body_env = sample_env\<lparr>body_arrives_after := Some 200000\<rparr>"

definition object_reply :: other_value where
  "object_reply = \<lparr> value_text = Inr (lit ''[object Object]''), length_over_preview = True \<rparr>"

definition object_reply_env :: env where
  "object_reply_env =
     sample_env\<lparr>fetch_result := Fetch_resolved_other 200 (Inr (lit ''{}'')) object_reply\<rparr>"

definition failed_cleanup_env :: env where
  "failed_cleanup_env =
     sample_env\<lparr>unlink_error :=
       Some (JsError (lit ''Error'') (lit ''EPERM: operation not permitted, unlink'')),
       unlink_retry_error :=
       Some (JsError (lit ''Error'') (lit ''EPERM: operation not permitted, unlink''))\<rparr>"

section \<open>Shape of a trace\<close>

text \<open>The review the handler takes from the reply of the backend, if it is truthy.\<close>

definition backend_review :: "env \<Rightarrow> review option" where
  "backend_review env =
     (case fetch_result env of
        Fetch_rejected e \<Rightarrow> None
      | Fetch_resolved st text_result json_result \<Rightarrow>
          (case text_review json_result of Inl e \<Rightarrow> None | Inr data_response \<Rightarrow> data_response)
      | Fetch_resolved_other st text_result v \<Rightarrow> Some (Review_other v))"

section \<open>Facts about strings and literals\<close>

lemmas route_defs = review_route_def review_handler_def review_steps_def call_backend_def
  after_response_def save_and_respond_def catch_block_def cleanupFile_def upload_single_def
  fileFilter_def

lemmas sample_defs = sample_config_def sample_part_def sample_env_def

lemmas variant_defs = long_file_env_def oversized_file_env_def blank_content_def
  long_review_env_def timeout_env_def failed_cleanup_env_def sample_file_def
  long_part_def long_file_def late_body_env_def object_reply_env_def object_reply_def
  nested_part_def

lemma lit_eq_Nil [simp]: "(lit s = []) = (s = [])"
  by (simp add: lit_def)

lemma length_lit [simp]: "length (lit s) = length s"
  by (simp add: lit_def)

lemma new_Error_sel [simp]:
  "err_name (new_Error m) = lit ''Error''" "err_message (new_Error m) = m"
  by (simp_all add: new_Error_def)

lemma Error_not_Abort [simp]:
  "lit ''Error'' \<noteq> lit ''AbortError''" "lit ''TypeError'' \<noteq> lit ''AbortError''"
  by (simp_all add: lit_def)

lemma trim_Nil [simp]: "trim [] = []"
  by (simp add: trim_def)

lemma trim_replicate [simp]:
  "trim (replicate n c) = (if is_js_space c then [] else replicate n c)"
  by (simp add: trim_def)

lemma letter_a_not_space [simp]: "\<not> is_js_space 0x61"
  by (simp add: is_js_space_def)

text \<open>None of the handler's own messages contains the filter's phrase.\<close>

lemma not_phrase_empty [simp]:
  "\<not> js_includes (lit ''File appears to be empty'') (lit ''Only code files are allowed'')"
  by (simp add: lit_def)

lemma not_phrase_large [simp]:
  "\<not> js_includes (lit ''File too large for review (max 10KB). Please upload smaller files.'')
        (lit ''Only code files are allowed'')"
  by (simp add: lit_def)

lemma not_phrase_invalid [simp]:
  "\<not> js_includes (lit ''Invalid response from Ollama API'') (lit ''Only code files are allowed'')"
  by (simp add: lit_def)

lemma not_phrase_substring [simp]:
  "\<not> js_includes (lit ''reviewComments.substring is not a function'')
        (lit ''Only code files are allowed'')"
  by (simp add: lit_def)

lemma abort_error_sel [simp]:
  "err_name abort_error = lit ''AbortError''"
  "\<not> js_includes (err_message abort_error) (lit ''Only code files are allowed'')"
  by (simp_all add: lit_def abort_error_def)

section \<open>Facts about the sample request\<close>

lemma sample_accepted: "allowedTypes_test (lit ''main.py'')"
  by (simp add: allowedTypes_test_def lit_def allowed_extensions_def ascii_lower_def
      suffix_to_prefix)

lemma notes_rejected: "\<not> allowedTypes_test (lit ''notes.txt'')"
  by (simp add: allowedTypes_test_def lit_def allowed_extensions_def ascii_lower_def
      suffix_to_prefix)

lemma sample_basenames:
  "busboy_basename (lit ''main.py'') = lit ''main.py''"
  "busboy_basename (lit ''notes.txt'') = lit ''notes.txt''"
  "busboy_basename (lit ''src/main.py'') = lit ''main.py''"
  by (simp_all add: busboy_basename_def is_separator_def lit_def)

lemma sample_content_ok [simp]: "trim (lit ''print(1)'') \<noteq> []"
  by (simp add: trim_def lit_def is_js_space_def)

lemma show_503: "show_nat 503 = lit ''503''"
  by (simp add: show_nat.simps digit_unit_def lit_def)

lemma phrase_in_backend_message:
  "js_includes
     (lit ''Ollama API error: '' @ lit ''503'' @ lit '' - '' @ lit ''Only code files are allowed'')
     (lit ''Only code files are allowed'')"
  by (simp add: lit_def)

lemma sample_timer [simp]:
  "timer_delay (REQUEST_TIMEOUT sample_config) = 120000"
  by (simp add: sample_config_def REQUEST_TIMEOUT_init_def timer_delay_def)

lemma upload_path_nonempty:
  "upload_single env part = Mw_next (Some f) \<Longrightarrow> path f \<noteq> []"
  by (auto simp: upload_single_def split: option.splits if_splits)

lemma upload_single_unchanged [simp]:
  "upload_single (env\<lparr>readFile_result := a\<rparr>) part = upload_single env part"
  "upload_single (env\<lparr>fetch_result := b\<rparr>) part = upload_single env part"
  "upload_single (env\<lparr>fetch_settles_after := c\<rparr>) part = upload_single env part"
  "upload_single (env\<lparr>body_arrives_after := d\<rparr>) part = upload_single env part"
  "upload_single (env\<lparr>unlink_error := u\<rparr>) part = upload_single env part"
  "upload_single (env\<lparr>unlink_retry_error := u'\<rparr>) part = upload_single env part"
  by (simp_all add: upload_single_def split: option.splits)

lemma sample_upload:
  "upload_single sample_env (Some sample_part) = Mw_next (Some sample_file)"
  "upload_single sample_env (Some nested_part) = Mw_next (Some sample_file)"
  "upload_single sample_env (Some long_part) = Mw_next (Some long_file)"
  by (simp_all add: upload_single_def fileFilter_def sample_defs variant_defs sample_accepted
      sample_basenames fileSize_limit_def)

lemma sample_upload_variants:
  "upload_single long_file_env (Some long_part) = Mw_next (Some long_file)"
  "upload_single long_review_env (Some sample_part) = Mw_next (Some sample_file)"
  "upload_single timeout_env (Some sample_part) = Mw_next (Some sample_file)"
  "upload_single late_body_env (Some sample_part) = Mw_next (Some sample_file)"
  "upload_single object_reply_env (Some sample_part) = Mw_next (Some sample_file)"
  "upload_single failed_cleanup_env (Some sample_part) = Mw_next (Some sample_file)"
  by (simp_all add: long_file_env_def long_review_env_def timeout_env_def late_body_env_def
      object_reply_env_def failed_cleanup_env_def sample_upload)

section \<open>Facts about traces\<close>

lemma responses_append [simp]: "responses (xs @ ys) = responses xs @ responses ys"
  by (induction xs rule: responses.induct) simp_all

lemma backend_calls_append [simp]: "backend_calls (xs @ ys) = backend_calls xs @ backend_calls ys"
  by (induction xs rule: backend_calls.induct) simp_all

lemma artifact_writes_append [simp]:
  "artifact_writes (xs @ ys) = artifact_writes xs @ artifact_writes ys"
  by (induction xs rule: artifact_writes.induct) simp_all

lemma unlinks_append [simp]: "unlinks (xs @ ys) = unlinks xs @ unlinks ys"
  by (induction xs rule: unlinks.induct) simp_all

lemma timer_aborts_append [simp]: "timer_aborts (xs @ ys) = timer_aborts xs + timer_aborts ys"
  by (induction xs rule: timer_aborts.induct) simp_all

lemma failure_logs_append [simp]: "failure_logs (xs @ ys) = failure_logs xs @ failure_logs ys"
  by (induction xs rule: failure_logs.induct) simp_all

lemma failed_unlinks_append [simp]:
  "failed_unlinks (xs @ ys) = failed_unlinks xs @ failed_unlinks ys"
  by (induction xs rule: failed_unlinks.induct) simp_all

lemma cleanupFile_quiet [simp]:
  "responses (cleanupFile env n p) = []" "backend_calls (cleanupFile env n p) = []"
  "artifact_writes (cleanupFile env n p) = []" "timer_aborts (cleanupFile env n p) = 0"
  by (simp_all add: cleanupFile_def split: option.splits)

lemma cleanupFile_unlinks [simp]:
  "unlinks (cleanupFile env n p) = [(p, unlink_result env n = None)]"
  "failure_logs (cleanupFile env n p) = failed_unlinks (cleanupFile env n p)"
  by (simp_all add: cleanupFile_def split: option.splits)

lemma unlink_result_first [simp]: "unlink_result env 0 = unlink_error env"
  by (simp add: unlink_result_def)

lemma success_response_fields [simp]:
  "status (success_response cfg env f c pv) = 200"
  "field (success_response cfg env f c pv) ''truncated'' = Some (JBool (5000 < length c))"
  "field (success_response cfg env f c pv) ''reviewPreview'' = Some pv"
  by (simp_all add: success_response_def field_def)

lemma catch_block_responses:
  "r \<in> set (responses (catch_block cfg env fp n e)) \<Longrightarrow>
   status r \<noteq> 200 \<and> field r ''truncated'' = None"
  by (auto simp: catch_block_def field_def split: option.splits if_splits)

lemma catch_block_one: "length (responses (catch_block cfg env fp n e)) = 1"
  by (simp add: catch_block_def split: option.splits)

lemma catch_block_calls [simp]:
  "backend_calls (catch_block cfg env fp n e) = []"
  "artifact_writes (catch_block cfg env fp n e) = []"
  "timer_aborts (catch_block cfg env fp n e) = 0"
  by (simp_all add: catch_block_def split: option.splits)

section \<open>What each step of the handler can answer\<close>

text \<open>A response sent by the body of \<open>try\<close> is the success response, built from a truthy
  reply of the backend whose preview could be computed.\<close>

lemma save_responses:
  "r \<in> set (responses (fst (save_and_respond cfg env f c rv))) \<Longrightarrow>
   \<exists>pv. preview_of rv = Inr pv \<and> r = success_response cfg env f c pv"
  by (auto simp: save_and_respond_def split: sum.splits option.splits)

lemma after_responses:
  "r \<in> set (responses (fst (after_response cfg env f c st t jr))) \<Longrightarrow>
   \<exists>rv pv. jr = Inr (Some rv) \<and> rv \<noteq> Review_text [] \<and> preview_of rv = Inr pv
      \<and> r = success_response cfg env f c pv"
  by (auto simp: after_response_def split: sum.splits option.splits if_splits
      dest: save_responses)

lemma call_responses:
  "r \<in> set (responses (fst (call_backend cfg env f c))) \<Longrightarrow>
   \<exists>rv pv. backend_review env = Some rv \<and> rv \<noteq> Review_text [] \<and> preview_of rv = Inr pv
      \<and> r = success_response cfg env f c pv"
  by (auto simp: call_backend_def backend_review_def split_beta
      split: fetch_outcome.splits if_splits dest!: after_responses)

lemma steps_responses:
  "r \<in> set (responses (fst (review_steps cfg env f))) \<Longrightarrow>
   \<exists>c rv pv. readFile_result env = Inr c \<and> backend_review env = Some rv
      \<and> rv \<noteq> Review_text [] \<and> preview_of rv = Inr pv
      \<and> r = success_response cfg env f c pv"
  by (auto simp: review_steps_def split_beta split: sum.splits if_splits dest!: call_responses)

lemma handler_responses:
  "r \<in> set (responses (review_handler cfg env (Some f))) \<Longrightarrow>
   (status r \<noteq> 200 \<and> field r ''truncated'' = None) \<or>
   (\<exists>c rv pv. readFile_result env = Inr c \<and> backend_review env = Some rv
      \<and> rv \<noteq> Review_text [] \<and> preview_of rv = Inr pv
      \<and> r = success_response cfg env f c pv)"
  by (auto simp: review_handler_def split_beta split: ending.splits
      dest!: steps_responses catch_block_responses)

lemma route_responses:
  "r \<in> set (responses (review_route cfg env part)) \<Longrightarrow>
   (status r \<noteq> 200 \<and> field r ''truncated'' = None) \<or>
   (\<exists>f c rv pv. upload_single env part = Mw_next (Some f) \<and> readFile_result env = Inr c
      \<and> backend_review env = Some rv \<and> rv \<noteq> Review_text [] \<and> preview_of rv = Inr pv
      \<and> r = success_response cfg env f c pv)"
proof (cases "upload_single env part")
  case (Mw_error e)
  assume "r \<in> set (responses (review_route cfg env part))"
  with Mw_error show ?thesis by (simp add: review_route_def field_def)
next
  case (Mw_next upl)
  assume r: "r \<in> set (responses (review_route cfg env part))"
  show ?thesis
  proof (cases upl)
    case None
    with r Mw_next show ?thesis by (simp add: review_route_def review_handler_def field_def)
  next
    case (Some f)
    with r Mw_next have "r \<in> set (responses (review_handler cfg env (Some f)))"
      by (simp add: review_route_def)
    from handler_responses [OF this] Mw_next Some show ?thesis by blast
  qed
qed

lemma reviewPreview_props:
  "prefix (take 300 (reviewPreview rc)) rc"
  "length (reviewPreview rc) \<le> 303"
  "(if 300 < length rc then reviewPreview rc = take 300 rc @ lit ''...''
    else reviewPreview rc = rc)"
  by (simp_all add: reviewPreview_def PREVIEW_LENGTH_def substring0_def take_is_prefix)

section \<open>The prompts sent\<close>

lemma save_calls [simp]: "backend_calls (fst (save_and_respond cfg env f c rv)) = []"
  by (simp add: save_and_respond_def split: sum.splits option.splits)

lemma after_calls [simp]: "backend_calls (fst (after_response cfg env f c st t jr)) = []"
  by (simp add: after_response_def split: sum.splits option.splits)

lemma call_calls [simp]:
  "backend_calls (fst (call_backend cfg env f c)) =
     [optimizedPrompt (originalname f) (truncatedContent c)]"
  by (simp add: call_backend_def split_beta split: fetch_outcome.splits)

lemma steps_calls:
  "readFile_result env = Inr c \<Longrightarrow>
   backend_calls (fst (review_steps cfg env f)) =
     (if trim c = [] then []
      else if 10000 < length c then []
      else [optimizedPrompt (originalname f) (truncatedContent c)])"
  by (simp add: review_steps_def split_beta)

lemma handler_calls:
  "backend_calls (review_handler cfg env (Some f)) = backend_calls (fst (review_steps cfg env f))"
  by (simp add: review_handler_def split_beta split: ending.splits)

lemma route_calls:
  "upload_single env part = Mw_next (Some f) \<Longrightarrow>
   backend_calls (review_route cfg env part) = backend_calls (fst (review_steps cfg env f))"
  by (simp add: review_route_def handler_calls)

section \<open>Where the cleanup happens\<close>

lemma cleaned_after_quiet:
  "responses pre = [] \<Longrightarrow> (p, ok) \<in> set (unlinks pre) \<Longrightarrow>
   cleaned_before_response p (pre @ [Respond r])"
  by (induction p pre rule: cleaned_before_response.induct) (auto split: if_splits)

text \<open>How a step ends: completed, with one \<open>unlink\<close> before its response, which comes
  last; thrown, before any response and after at most one \<open>unlink\<close>; or waiting, before
  any response or \<open>unlink\<close>. Every failed \<open>unlink\<close> is logged.\<close>

lemma save_shape:
  "save_and_respond cfg env f c rv = (evs, ended) \<Longrightarrow>
     failure_logs evs = failed_unlinks evs \<and>
     (case ended of
        Returned \<Rightarrow> \<exists>pre r. evs = pre @ [Respond r] \<and> responses pre = []
                      \<and> unlinks pre = [(path f, unlink_error env = None)]
      | Threw e \<Rightarrow> responses evs = []
                      \<and> unlinks evs \<in> {[], [(path f, unlink_error env = None)]}
      | Pending \<Rightarrow> responses evs = [] \<and> unlinks evs = [])"
  by (auto simp: save_and_respond_def split: sum.splits option.splits)

lemma after_shape:
  "after_response cfg env f c st t jr = (evs, ended) \<Longrightarrow>
     failure_logs evs = failed_unlinks evs \<and>
     (case ended of
        Returned \<Rightarrow> \<exists>pre r. evs = pre @ [Respond r] \<and> responses pre = []
                      \<and> unlinks pre = [(path f, unlink_error env = None)]
      | Threw e \<Rightarrow> responses evs = []
                      \<and> unlinks evs \<in> {[], [(path f, unlink_error env = None)]}
      | Pending \<Rightarrow> responses evs = [] \<and> unlinks evs = [])"
  using save_shape [of cfg env f c _ evs ended]
  by (auto simp: after_response_def split: sum.splits option.splits if_splits)

lemma cons_shape:
  assumes "failure_logs evs' = failed_unlinks evs' \<and>
     (case ended of
        Returned \<Rightarrow> \<exists>pre r. evs' = pre @ [Respond r] \<and> responses pre = []
                      \<and> unlinks pre = [(p, b)]
      | Threw e \<Rightarrow> responses evs' = [] \<and> unlinks evs' \<in> {[], [(p, b)]}
      | Pending \<Rightarrow> responses evs' = [] \<and> unlinks evs' = [])"
    and "evs = e0 # evs'"
    and "responses [e0] = []" "unlinks [e0] = []" "failure_logs [e0] = []"
      "failed_unlinks [e0] = []"
  shows "failure_logs evs = failed_unlinks evs \<and>
     (case ended of
        Returned \<Rightarrow> \<exists>pre r. evs = pre @ [Respond r] \<and> responses pre = []
                      \<and> unlinks pre = [(p, b)]
      | Threw e \<Rightarrow> responses evs = [] \<and> unlinks evs \<in> {[], [(p, b)]}
      | Pending \<Rightarrow> responses evs = [] \<and> unlinks evs = [])"
proof -
  have app: "responses (e0 # xs) = responses xs" "unlinks (e0 # xs) = unlinks xs"
    "failure_logs (e0 # xs) = failure_logs xs" "failed_unlinks (e0 # xs) = failed_unlinks xs"
    for xs
    using assms(3-6) responses_append [of "[e0]" xs] unlinks_append [of "[e0]" xs]
      failure_logs_append [of "[e0]" xs] failed_unlinks_append [of "[e0]" xs]
    by simp_all
  show ?thesis
  proof (cases ended)
    case Returned
    with assms(1) obtain pre r where "evs' = pre @ [Respond r]" "responses pre = []"
      "unlinks pre = [(p, b)]" by auto
    then have "evs = (e0 # pre) @ [Respond r] \<and> responses (e0 # pre) = []
        \<and> unlinks (e0 # pre) = [(p, b)]"
      using assms(2) by (simp add: app)
    with Returned assms(1,2) show ?thesis by (auto simp: app)
  next
    case (Threw e)
    with assms(1,2) show ?thesis by (simp add: app)
  next
    case Pending
    with assms(1,2) show ?thesis by (simp add: app)
  qed
qed

lemma call_shape:
  "call_backend cfg env f c = (evs, ended) \<Longrightarrow>
     failure_logs evs = failed_unlinks evs \<and>
     (case ended of
        Returned \<Rightarrow> \<exists>pre r. evs = pre @ [Respond r] \<and> responses pre = []
                      \<and> unlinks pre = [(path f, unlink_error env = None)]
      | Threw e \<Rightarrow> responses evs = []
                      \<and> unlinks evs \<in> {[], [(path f, unlink_error env = None)]}
      | Pending \<Rightarrow> responses evs = [] \<and> unlinks evs = [])"
proof -
  assume a: "call_backend cfg env f c = (evs, ended)"
  show ?thesis
  proof (cases "timer_fires_first cfg env")
    case True
    with a show ?thesis by (auto simp: call_backend_def)
  next
    case False
    show ?thesis
    proof (cases "fetch_result env")
      case (Fetch_rejected e)
      with a False show ?thesis by (auto simp: call_backend_def)
    next
      case (Fetch_resolved st t j)
      with a False obtain evs' where e: "evs = Backend_call (OLLAMA_MODEL cfg)
          (optimizedPrompt (originalname f) (truncatedContent c)) # evs'"
        and s: "after_response cfg env f c st t (text_review j) = (evs', ended)"
        by (auto simp: call_backend_def split: prod.splits)
      show ?thesis by (rule cons_shape [OF after_shape [OF s] e]) simp_all
    next
      case (Fetch_resolved_other st t v)
      with a False obtain evs' where e: "evs = Backend_call (OLLAMA_MODEL cfg)
          (optimizedPrompt (originalname f) (truncatedContent c)) # evs'"
        and s: "after_response cfg env f c st t (Inr (Some (Review_other v))) = (evs', ended)"
        by (auto simp: call_backend_def split: prod.splits)
      show ?thesis by (rule cons_shape [OF after_shape [OF s] e]) simp_all
    qed
  qed
qed

lemma steps_shape:
  "review_steps cfg env f = (evs, ended) \<Longrightarrow>
     failure_logs evs = failed_unlinks evs \<and>
     (case ended of
        Returned \<Rightarrow> \<exists>pre r. evs = pre @ [Respond r] \<and> responses pre = []
                      \<and> unlinks pre = [(path f, unlink_error env = None)]
      | Threw e \<Rightarrow> responses evs = []
                      \<and> unlinks evs \<in> {[], [(path f, unlink_error env = None)]}
      | Pending \<Rightarrow> responses evs = [] \<and> unlinks evs = [])"
proof -
  assume a: "review_steps cfg env f = (evs, ended)"
  show ?thesis
  proof (cases "readFile_result env")
    case (Inl e)
    with a show ?thesis by (auto simp: review_steps_def)
  next
    case (Inr c)
    show ?thesis
    proof (cases "trim c = [] \<or> 10000 < length c")
      case True
      with a Inr show ?thesis by (auto simp: review_steps_def split: if_splits)
    next
      case False
      with a Inr obtain evs' where e: "evs = Fs_readFile (path f) # evs'"
        and s: "call_backend cfg env f c = (evs', ended)"
        by (auto simp: review_steps_def split: prod.splits)
      show ?thesis by (rule cons_shape [OF call_shape [OF s] e]) simp_all
    qed
  qed
qed

text \<open>The handler with a stored upload: either it is still waiting, having sent nothing
  and removed nothing, or its response comes last, after one or two \<open>unlink\<close>s of the
  upload, the first with the result the file system gives a first \<open>unlink\<close>.\<close>

lemma handler_shape:
  assumes "path f \<noteq> []"
  shows "failure_logs (review_handler cfg env (Some f)) =
           failed_unlinks (review_handler cfg env (Some f))
         \<and> ((responses (review_handler cfg env (Some f)) = []
              \<and> unlinks (review_handler cfg env (Some f)) = [])
            \<or> (\<exists>pre r. review_handler cfg env (Some f) = pre @ [Respond r]
                  \<and> responses pre = []
                  \<and> unlinks pre \<in> {[(path f, unlink_error env = None)],
                       [(path f, unlink_error env = None), (path f, unlink_result env 1 = None)]}))"
proof -
  obtain evs ended where st: "review_steps cfg env f = (evs, ended)"
    by (cases "review_steps cfg env f")
  note sh = steps_shape [OF st]
  show ?thesis
  proof (cases ended)
    case Returned
    with sh st show ?thesis by (auto simp: review_handler_def)
  next
    case Pending
    with sh st show ?thesis by (auto simp: review_handler_def)
  next
    case (Threw e)
    with sh have q: "responses evs = []" "failure_logs evs = failed_unlinks evs"
      and u: "unlinks evs = [] \<or> unlinks evs = [(path f, unlink_error env = None)]"
      by auto
    obtain r where c: "catch_block cfg env (Some (path f)) (length (unlinks evs)) e =
        cleanupFile env (length (unlinks evs)) (path f) @ [Respond r]"
      using assms by (simp add: catch_block_def)
    have h: "review_handler cfg env (Some f) =
        (evs @ cleanupFile env (length (unlinks evs)) (path f)) @ [Respond r]"
      using st Threw c by (simp add: review_handler_def)
    have "responses (evs @ cleanupFile env (length (unlinks evs)) (path f)) = []"
      using q by simp
    moreover have "unlinks (evs @ cleanupFile env (length (unlinks evs)) (path f))
        \<in> {[(path f, unlink_error env = None)],
           [(path f, unlink_error env = None), (path f, unlink_result env 1 = None)]}"
      using u by auto
    moreover have "failure_logs (review_handler cfg env (Some f)) =
           failed_unlinks (review_handler cfg env (Some f))"
      unfolding h using q by simp
    ultimately show ?thesis using h by blast
  qed
qed

section \<open>The responses do not depend on the results of unlink\<close>

lemma save_independent:
  "responses (fst (save_and_respond cfg (env\<lparr>unlink_error := u, unlink_retry_error := u'\<rparr>) f c rv)) =
   responses (fst (save_and_respond cfg env f c rv))"
  "snd (save_and_respond cfg (env\<lparr>unlink_error := u, unlink_retry_error := u'\<rparr>) f c rv) =
   snd (save_and_respond cfg env f c rv)"
  by (simp_all add: save_and_respond_def mdPath_def reviewContent_def success_response_def
      split: option.splits sum.splits)

lemma after_independent:
  "responses (fst (after_response cfg (env\<lparr>unlink_error := u, unlink_retry_error := u'\<rparr>) f c st t j)) =
   responses (fst (after_response cfg env f c st t j))"
  "snd (after_response cfg (env\<lparr>unlink_error := u, unlink_retry_error := u'\<rparr>) f c st t j) =
   snd (after_response cfg env f c st t j)"
  by (auto simp: after_response_def save_independent split: option.splits sum.splits)

lemma call_independent:
  "responses (fst (call_backend cfg (env\<lparr>unlink_error := u, unlink_retry_error := u'\<rparr>) f c)) =
   responses (fst (call_backend cfg env f c))"
  "snd (call_backend cfg (env\<lparr>unlink_error := u, unlink_retry_error := u'\<rparr>) f c) =
   snd (call_backend cfg env f c)"
  by (simp_all add: call_backend_def timer_fires_first_def split_beta after_independent
      split: fetch_outcome.splits)

lemma steps_independent:
  "responses (fst (review_steps cfg (env\<lparr>unlink_error := u, unlink_retry_error := u'\<rparr>) f)) =
   responses (fst (review_steps cfg env f))"
  "snd (review_steps cfg (env\<lparr>unlink_error := u, unlink_retry_error := u'\<rparr>) f) =
   snd (review_steps cfg env f)"
  by (simp_all add: review_steps_def split_beta call_independent split: sum.splits)

lemma catch_independent:
  "responses (catch_block cfg (env\<lparr>unlink_error := u, unlink_retry_error := u'\<rparr>) fp n e) =
   responses (catch_block cfg env fp m e)"
  by (simp add: catch_block_def split: option.splits)

lemma handler_independent:
  "responses (review_handler cfg (env\<lparr>unlink_error := u, unlink_retry_error := u'\<rparr>) upl) =
   responses (review_handler cfg env upl)"
proof (cases upl)
  case None
  then show ?thesis by (simp add: review_handler_def)
next
  case (Some f)
  obtain evs ended where a: "review_steps cfg env f = (evs, ended)"
    by (cases "review_steps cfg env f")
  obtain evs' ended' where
    b: "review_steps cfg (env\<lparr>unlink_error := u, unlink_retry_error := u'\<rparr>) f = (evs', ended')"
    by (cases "review_steps cfg (env\<lparr>unlink_error := u, unlink_retry_error := u'\<rparr>) f")
  from steps_independent [where cfg = cfg and u = u and u' = u' and env = env and f = f] a b
  have eq: "responses evs' = responses evs" "ended' = ended" by simp_all
  show ?thesis
  proof (cases ended)
    case (Threw e)
    with a b eq Some
      catch_independent [where cfg = cfg and u = u and u' = u' and env = env
        and fp = "Some (path f)" and n = "length (unlinks evs')" and e = e
        and m = "length (unlinks evs)"]
    show ?thesis by (simp add: review_handler_def)
  qed (use a b eq Some in \<open>simp_all add: review_handler_def\<close>)
qed

lemma route_independent:
  "responses (review_route cfg (env\<lparr>unlink_error := u, unlink_retry_error := u'\<rparr>) part) =
   responses (review_route cfg env part)"
  by (simp add: review_route_def handler_independent split: option.splits mw_result.splits)

section \<open>The error mapping in general\<close>

text \<open>What the route answers to a refused upload, to content over the limit, to a backend
  status outside 200 to 299 and to a reply that starts after the deadline, for every
  configuration and environment.\<close>

lemma filter_error_skips_handler:
  "busboy_basename (part_filename p) \<noteq> [] \<Longrightarrow>
   \<not> allowedTypes_test (busboy_basename (part_filename p)) \<Longrightarrow>
   review_route cfg env (Some p) =
     [Respond (Response 500 (Error_page (new_Error (lit ''Only code files are allowed''))))]"
  by (simp add: review_route_def upload_single_def fileFilter_def)

lemma oversized_content_general:
  assumes "upload_single env part = Mw_next (Some f)"
    and "readFile_result env = Inr fileContent"
    and "trim fileContent \<noteq> []"
    and "10000 < length fileContent"
  shows "review_route cfg env part =
      [Upload_stored (path f), Fs_readFile (path f)]
      @ cleanupFile env 0 (path f)
      @ [Respond (Response 500 (Json
           [(''error'', JStr (lit ''Failed to generate review'')),
            (''details'', JStr (lit
               ''File too large for review (max 10KB). Please upload smaller files.'')),
            (''requestId'', JNum (requestId env))]))]"
  using assms upload_path_nonempty [OF assms(1)]
  by (simp add: review_route_def review_handler_def review_steps_def catch_block_def)

lemma backend_error_general:
  assumes "upload_single env part = Mw_next (Some f)"
    and "readFile_result env = Inr fileContent"
    and "trim fileContent \<noteq> []"
    and "length fileContent \<le> 10000"
    and "\<not> timer_fires_first cfg env"
    and "fetch_result env = Fetch_resolved st (Inr errorText) j"
    and "body_arrives_after env = Some ms"
    and "st < 200 \<or> 299 < st"
  shows "review_route cfg env part =
      [Upload_stored (path f), Fs_readFile (path f),
       Backend_call (OLLAMA_MODEL cfg)
         (optimizedPrompt (originalname f) (truncatedContent fileContent))]
      @ cleanupFile env 0 (path f)
      @ [Respond
          (if js_includes (lit ''Ollama API error: '' @ show_nat st @ lit '' - '' @ errorText)
                (lit ''Only code files are allowed'')
           then Response 400 (Json
                  [(''error'', JStr (lit ''Ollama API error: '' @ show_nat st @ lit '' - '' @
                                      errorText))])
           else Response 500 (Json
                  [(''error'', JStr (lit ''Failed to generate review'')),
                   (''details'', JStr (lit ''Ollama API error: '' @ show_nat st @ lit '' - '' @
                                        errorText)),
                   (''requestId'', JNum (requestId env))]))]"
  using assms upload_path_nonempty [OF assms(1)]
  by (auto simp: review_route_def review_handler_def review_steps_def call_backend_def
      after_response_def catch_block_def)

lemma backend_error_no_artifact:
  assumes "fetch_result env = Fetch_resolved st t j"
    and "st < 200 \<or> 299 < st"
  shows "artifact_writes (review_route cfg env part) = []"
  using assms
  by (auto simp: review_route_def review_handler_def review_steps_def call_backend_def
      after_response_def split: mw_result.splits option.splits sum.splits ending.splits)

text \<open>The reply does not start before the timer's delay is over: the call is aborted, the
  upload is cleaned up and the answer is 408.\<close>

lemma timeout_408:
  assumes "upload_single env part = Mw_next (Some f)"
    and "readFile_result env = Inr fileContent"
    and "trim fileContent \<noteq> []"
    and "length fileContent \<le> 10000"
    and "timer_fires_first cfg env"
  shows "review_route cfg env part =
           [Upload_stored (path f), Fs_readFile (path f),
            Backend_call (OLLAMA_MODEL cfg)
              (optimizedPrompt (originalname f) (truncatedContent fileContent)),
            Timer_abort]
           @ cleanupFile env 0 (path f)
           @ [Respond (Response 408 (Json
                [(''error'', JStr (lit ''Request timeout - Model took longer than '' @
                                    timeout_seconds_text cfg @ lit '' seconds'')),
                 (''suggestion'', JStr (lit
                    ''Try uploading a smaller file or increase REQUEST_TIMEOUT environment variable'')),
                 (''requestId'', JNum (requestId env))]))]"
  using assms upload_path_nonempty [OF assms(1)]
  by (simp add: review_route_def review_handler_def review_steps_def call_backend_def
        catch_block_def)

text \<open>Once the reply has started in time, nothing aborts the call any more, and a body
  that never arrives leaves the request unanswered and the upload in place.\<close>

lemma no_abort_after_head:
  "\<not> timer_fires_first cfg env \<Longrightarrow> timer_aborts (review_route cfg env part) = 0"
  by (auto simp: review_route_def review_handler_def review_steps_def call_backend_def
      after_response_def save_and_respond_def
      split: mw_result.splits option.splits sum.splits ending.splits fetch_outcome.splits
        prod.splits)

lemma stalled_body_unanswered:
  assumes "upload_single env part = Mw_next (Some f)"
    and "readFile_result env = Inr fileContent"
    and "trim fileContent \<noteq> []"
    and "length fileContent \<le> 10000"
    and "\<not> timer_fires_first cfg env"
    and "fetch_result env = Fetch_resolved st t j"
    and "body_arrives_after env = None"
  shows "review_route cfg env part =
           [Upload_stored (path f), Fs_readFile (path f),
            Backend_call (OLLAMA_MODEL cfg)
              (optimizedPrompt (originalname f) (truncatedContent fileContent))]"
  using assms
  by (simp add: review_route_def review_handler_def review_steps_def call_backend_def
      after_response_def)

section \<open>The sample request and its variations, evaluated\<close>

lemma sample_reaches_backend [simp]:
  "\<not> timer_fires_first sample_config sample_env"
  "\<not> timer_fires_first sample_config (sample_env\<lparr>readFile_result := a\<rparr>)"
  "\<not> timer_fires_first sample_config (sample_env\<lparr>fetch_result := b\<rparr>)"
  "\<not> timer_fires_first sample_config (sample_env\<lparr>body_arrives_after := d\<rparr>)"
  "\<not> timer_fires_first sample_config (sample_env\<lparr>unlink_error := u, unlink_retry_error := u'\<rparr>)"
  by (simp_all add: timer_fires_first_def) (simp_all add: sample_env_def)

lemmas eval_defs = route_defs sample_defs variant_defs sample_accepted sample_basenames
  fileSize_limit_def timer_fires_first_def timer_delay_def REQUEST_TIMEOUT_init_def
  text_review_def review_text_def preview_of_def unlink_result_def

lemma long_file_success:
  "responses (review_route sample_config long_file_env (Some long_part)) =
     [success_response sample_config long_file_env long_file (replicate 6000 0x61)
        (JStr (lit ''Looks fine.''))]"
  by (simp add: eval_defs success_response_def mdPath_def reviewPreview_def PREVIEW_LENGTH_def)

lemma long_review_success:
  "responses (review_route sample_config long_review_env (Some sample_part)) =
     [success_response sample_config long_review_env sample_file (lit ''print(1)'')
        (JStr (replicate 300 0x61 @ lit ''...''))]"
  by (simp add: eval_defs success_response_def mdPath_def reviewPreview_def PREVIEW_LENGTH_def
      substring0_def)

section \<open>The claims\<close>

text \<open>
  C1. A file named \<open>notes.txt\<close> is refused by the filter and the backend is not called, but
  the filter's error is raised in the middleware, outside the handler's \<open>try\<close>: the
  request is answered by Express's final handler with status 500, and the branch of the
  \<open>catch\<close> block that maps this message to 400 is not reached.
\<close>

theorem unsupported_type_500:
  "review_route cfg env (Some \<lparr> part_filename = lit ''notes.txt'', part_size = 12 \<rparr>) =
     [Respond (Response 500 (Error_page (new_Error (lit ''Only code files are allowed''))))]
   \<and> backend_calls
        (review_route cfg env (Some \<lparr> part_filename = lit ''notes.txt'', part_size = 12 \<rparr>)) = []"
  by (simp add: route_defs notes_rejected sample_basenames)

text \<open>
  C2, as amended. For an accepted upload whose content has been read: when the content is
  not blank and has at most 10000 code units, exactly one prompt is sent to the backend,
  the instructions with the base name of the file followed by the content when it has at
  most 5000 code units, and by its first 5000 code units and the truncation marker when
  it is longer; when the content is blank or longer than 10000 code units no prompt is
  sent. Every response with status 200 carries \<open>truncated\<close>, true exactly when the
  content is longer than 5000, and every other response carries no such field.
\<close>

theorem prompt_truncation:
  assumes "upload_single env (Some p) = Mw_next (Some f)"
    and "readFile_result env = Inr fileContent"
  shows "originalname f = busboy_basename (part_filename p)
         \<and> backend_calls (review_route cfg env (Some p)) =
             (if trim fileContent = [] then []
              else if 10000 < length fileContent then []
              else [prompt_instructions (busboy_basename (part_filename p)) @
                    (if 5000 < length fileContent
                     then take 5000 fileContent @ truncation_marker
                     else fileContent)])
         \<and> (\<forall>r \<in> set (responses (review_route cfg env (Some p))).
               if status r = 200
               then field r ''truncated'' = Some (JBool (5000 < length fileContent))
               else field r ''truncated'' = None)"
proof (intro conjI ballI)
  show name: "originalname f = busboy_basename (part_filename p)"
    using assms(1) by (auto simp: upload_single_def split: option.splits if_splits)
  show "backend_calls (review_route cfg env (Some p)) =
             (if trim fileContent = [] then []
              else if 10000 < length fileContent then []
              else [prompt_instructions (busboy_basename (part_filename p)) @
                    (if 5000 < length fileContent
                     then take 5000 fileContent @ truncation_marker
                     else fileContent)])"
    using route_calls [OF assms(1), of cfg] steps_calls [OF assms(2), of cfg f] name
    by (simp add: optimizedPrompt_def truncatedContent_def substring0_def)
next
  fix r assume "r \<in> set (responses (review_route cfg env (Some p)))"
  from route_responses [OF this] assms
  show "if status r = 200
        then field r ''truncated'' = Some (JBool (5000 < length fileContent))
        else field r ''truncated'' = None"
    by auto
qed

text \<open>The amended C2 at a file of 6000 letters sent as \<open>src/main.py\<close> and reviewed with
  success.\<close>

theorem prompt_truncation_witness:
  "upload_single long_file_env (Some long_part) = Mw_next (Some long_file)
   \<and> readFile_result long_file_env = Inr (replicate 6000 0x61)
   \<and> part_filename long_part = lit ''src/main.py''
   \<and> originalname long_file = lit ''main.py''
   \<and> backend_calls (review_route sample_config long_file_env (Some long_part)) =
         [prompt_instructions (lit ''main.py'') @ replicate 5000 0x61 @ truncation_marker]
   \<and> status (hd (responses (review_route sample_config long_file_env (Some long_part)))) = 200
   \<and> field (hd (responses (review_route sample_config long_file_env (Some long_part))))
         ''truncated'' = Some (JBool True)"
proof -
  have up: "upload_single long_file_env (Some long_part) = Mw_next (Some long_file)"
    by (rule sample_upload_variants)
  have rd: "readFile_result long_file_env = Inr (replicate 6000 0x61)"
    by (simp add: long_file_env_def)
  have nm: "part_filename long_part = lit ''src/main.py''"
    "busboy_basename (part_filename long_part) = lit ''main.py''"
    by (simp_all add: long_part_def nested_part_def sample_basenames)
  have ok: "status (hd (responses (review_route sample_config long_file_env (Some long_part)))) = 200"
    by (simp add: long_file_success)
  have mem: "hd (responses (review_route sample_config long_file_env (Some long_part)))
      \<in> set (responses (review_route sample_config long_file_env (Some long_part)))"
    by (simp add: long_file_success)
  note th = prompt_truncation [OF up rd, of sample_config]
  from th have a: "originalname long_file = busboy_basename (part_filename long_part)"
    by blast
  from th have b: "backend_calls (review_route sample_config long_file_env (Some long_part)) =
         [prompt_instructions (lit ''main.py'') @ replicate 5000 0x61 @ truncation_marker]"
    by (simp add: nm sample_basenames)
  from th mem ok
  have c: "field (hd (responses (review_route sample_config long_file_env (Some long_part))))
         ''truncated'' = Some (JBool True)"
    by auto
  from up rd nm a b c ok show ?thesis by (simp add: sample_basenames)
qed

text \<open>C2 as stated fails at a file of 10001 letters: it is longer than 5000, yet no prompt is
  sent, the answer has status 500 and it has no \<open>truncated\<close> field.\<close>

theorem prompt_truncation_counterexample:
  "5000 < length (replicate 10001 (0x61 :: 16 word))
   \<and> readFile_result oversized_file_env = Inr (replicate 10001 0x61)
   \<and> backend_calls (review_route sample_config oversized_file_env
        (Some (sample_part\<lparr>part_size := 10001\<rparr>))) = []
   \<and> status (hd (responses (review_route sample_config oversized_file_env
        (Some (sample_part\<lparr>part_size := 10001\<rparr>))))) = 500
   \<and> field (hd (responses (review_route sample_config oversized_file_env
        (Some (sample_part\<lparr>part_size := 10001\<rparr>))))) ''truncated'' = None"
  by (simp add: eval_defs field_def)

text \<open>
  C3. A response with status 200 exists only when the backend returned a truthy reply.
  When the reply is a text, it is not empty and the \<open>reviewPreview\<close> is that text when it
  has at most 300 code units, and its first 300 code units followed by \<open>...\<close> otherwise;
  the first 300 code units of the preview are a prefix of the text, and the preview has at
  most 303 code units. The only other successful reviews are those of a reply that is no
  text.
\<close>

theorem reviewPreview_of_success:
  assumes "r \<in> set (responses (review_route cfg env part))"
    and "status r = 200"
  shows "(\<exists>st t reviewComments.
           fetch_result env = Fetch_resolved st t (Inr (Some reviewComments))
           \<and> reviewComments \<noteq> []
           \<and> field r ''reviewPreview'' = Some (JStr (reviewPreview reviewComments))
           \<and> prefix (take 300 (reviewPreview reviewComments)) reviewComments
           \<and> length (reviewPreview reviewComments) \<le> 303
           \<and> (if 300 < length reviewComments
               then reviewPreview reviewComments = take 300 reviewComments @ lit ''...''
               else reviewPreview reviewComments = reviewComments))
         \<or> (\<exists>st t v. fetch_result env = Fetch_resolved_other st t v)"
proof -
  from route_responses [OF assms(1)] assms(2)
  obtain rv pv where rv: "backend_review env = Some rv" "rv \<noteq> Review_text []"
    "preview_of rv = Inr pv" and r: "field r ''reviewPreview'' = Some pv"
    by auto
  show ?thesis
  proof (cases rv)
    case (Review_other v)
    with rv(1) show ?thesis
      by (auto simp: backend_review_def text_review_def
          split: fetch_outcome.splits sum.splits option.splits)
  next
    case (Review_text rc)
    with rv(1) obtain st t where "fetch_result env = Fetch_resolved st t (Inr (Some rc))"
      by (auto simp: backend_review_def text_review_def
          split: fetch_outcome.splits sum.splits option.splits)
    moreover from Review_text rv(2) have "rc \<noteq> []" by simp
    moreover from Review_text rv(3) r
    have "field r ''reviewPreview'' = Some (JStr (reviewPreview rc))"
      by (auto simp: preview_of_def)
    ultimately show ?thesis using reviewPreview_props [of rc] by blast
  qed
qed

text \<open>C3 at a review of 400 letters.\<close>

theorem reviewPreview_of_success_witness:
  "hd (responses (review_route sample_config long_review_env (Some sample_part)))
     \<in> set (responses (review_route sample_config long_review_env (Some sample_part)))
   \<and> status (hd (responses (review_route sample_config long_review_env (Some sample_part)))) = 200
   \<and> field (hd (responses (review_route sample_config long_review_env (Some sample_part))))
        ''reviewPreview'' = Some (JStr (replicate 300 0x61 @ lit ''...''))
   \<and> length (replicate 300 (0x61 :: 16 word) @ lit ''...'') = 303"
proof -
  have mem: "hd (responses (review_route sample_config long_review_env (Some sample_part)))
      \<in> set (responses (review_route sample_config long_review_env (Some sample_part)))"
    by (simp add: long_review_success)
  have ok: "status (hd (responses (review_route sample_config long_review_env (Some sample_part)))) = 200"
    by (simp add: long_review_success)
  have fr: "fetch_result long_review_env =
      Fetch_resolved 200 (Inr (lit ''{}'')) (Inr (Some (replicate 400 0x61)))"
    by (simp add: long_review_env_def)
  from reviewPreview_of_success [OF mem ok] fr
  obtain rc where
    f: "rc = replicate 400 0x61"
    and p: "field (hd (responses (review_route sample_config long_review_env (Some sample_part))))
        ''reviewPreview'' = Some (JStr (reviewPreview rc))"
    by auto
  from f p
  have "field (hd (responses (review_route sample_config long_review_env (Some sample_part))))
        ''reviewPreview'' = Some (JStr (replicate 300 0x61 @ lit ''...''))"
    by (simp add: reviewPreview_def PREVIEW_LENGTH_def substring0_def)
  with mem ok show ?thesis by simp
qed

text \<open>
  C4. An accepted upload whose content is empty is answered with status 500 and the details
  \<open>File appears to be empty\<close>: the thrown error falls through to the generic branch of the
  \<open>catch\<close> block.
\<close>

theorem empty_file_500:
  "responses (review_route sample_config (sample_env\<lparr>readFile_result := Inr []\<rparr>)
       (Some (sample_part\<lparr>part_size := 0\<rparr>))) =
     [Response 500 (Json [(''error'', JStr (lit ''Failed to generate review'')),
                          (''details'', JStr (lit ''File appears to be empty'')),
                          (''requestId'', JNum 1700000000000)])]"
  by (simp add: eval_defs)

text \<open>
  C5. An accepted upload of 10001 letters is answered with status 500 and the details
  \<open>File too large for review (max 10KB). Please upload smaller files.\<close>, without a call
  to the backend.
\<close>

theorem oversized_content_500:
  "responses (review_route sample_config
       (sample_env\<lparr>readFile_result := Inr (replicate 10001 0x61)\<rparr>)
       (Some (sample_part\<lparr>part_size := 10001\<rparr>))) =
     [Response 500 (Json [(''error'', JStr (lit ''Failed to generate review'')),
                          (''details'', JStr (lit
                             ''File too large for review (max 10KB). Please upload smaller files.'')),
                          (''requestId'', JNum 1700000000000)])]
   \<and> backend_calls (review_route sample_config
       (sample_env\<lparr>readFile_result := Inr (replicate 10001 0x61)\<rparr>)
       (Some (sample_part\<lparr>part_size := 10001\<rparr>))) = []"
  by (simp add: eval_defs)

text \<open>
  C6. The deadline covers the call only until the reply starts. When the head of the reply
  arrives after 850 ms and its body after 200000 ms, with the deadline at 120000 ms, the
  timer has been cleared when the body is awaited: the call is not aborted and the request
  is answered with status 200, not 408.
\<close>

theorem late_body_not_aborted:
  "timer_delay (REQUEST_TIMEOUT sample_config) = 120000
   \<and> fetch_settles_after late_body_env = Some 850
   \<and> body_arrives_after late_body_env = Some 200000
   \<and> timer_aborts (review_route sample_config late_body_env (Some sample_part)) = 0
   \<and> map status (responses (review_route sample_config late_body_env (Some sample_part))) = [200]"
  by (simp add: eval_defs success_response_def)

text \<open>
  C7. When the backend answers 503 with the body \<open>Only code files are allowed\<close>, the message
  of the thrown error contains the phrase the \<open>catch\<close> block looks for first, and the
  request is answered with status 400 and that message as \<open>error\<close>, not with status 500
  and \<open>details\<close>. No Markdown file is written.
\<close>

theorem backend_error_as_400:
  "responses (review_route sample_config
       (sample_env\<lparr>fetch_result :=
          Fetch_resolved 503 (Inr (lit ''Only code files are allowed''))
            (Inl (JsError (lit ''SyntaxError'') (lit ''Unexpected token'')))\<rparr>)
       (Some sample_part)) =
     [Response 400 (Json [(''error'', JStr (lit ''Ollama API error: '' @ lit ''503'' @ lit '' - '' @
                                            lit ''Only code files are allowed''))])]
   \<and> artifact_writes (review_route sample_config
       (sample_env\<lparr>fetch_result :=
          Fetch_resolved 503 (Inr (lit ''Only code files are allowed''))
            (Inl (JsError (lit ''SyntaxError'') (lit ''Unexpected token'')))\<rparr>)
       (Some sample_part)) = []"
  by (simp add: eval_defs show_503 phrase_in_backend_message)

text \<open>
  C8. Whenever the middleware has stored an upload and the request is answered, whatever
  the file system and the backend do: the response is the last event and the only
  response; before it the upload is unlinked, once or, when the answer is built after a
  first cleanup and throws, twice; the first \<open>unlink\<close> removes the file unless the file
  system refuses; no other file is unlinked; every failed \<open>unlink\<close> is logged; and the
  responses are the same whatever the results of \<open>unlink\<close> are.
\<close>

theorem cleanup_on_every_exit:
  assumes "upload_single env part = Mw_next (Some f)"
    and "responses (review_route cfg env part) \<noteq> []"
  shows "(\<exists>pre r. review_route cfg env part = pre @ [Respond r]
            \<and> responses pre = []
            \<and> unlinks pre \<in> {[(path f, unlink_error env = None)],
                 [(path f, unlink_error env = None), (path f, unlink_result env 1 = None)]})
         \<and> cleaned_before_response (path f) (review_route cfg env part)
         \<and> failure_logs (review_route cfg env part) = failed_unlinks (review_route cfg env part)
         \<and> responses (review_route cfg (env\<lparr>unlink_error := u, unlink_retry_error := u'\<rparr>) part) =
             responses (review_route cfg env part)"
proof -
  have tr: "review_route cfg env part = Upload_stored (path f) # review_handler cfg env (Some f)"
    using assms(1) by (simp add: review_route_def)
  from handler_shape [OF upload_path_nonempty [OF assms(1)], of cfg env] assms(2)
  obtain pre r where h: "review_handler cfg env (Some f) = pre @ [Respond r]"
    "responses pre = []"
    "unlinks pre \<in> {[(path f, unlink_error env = None)],
       [(path f, unlink_error env = None), (path f, unlink_result env 1 = None)]}"
    and lg: "failure_logs (review_handler cfg env (Some f)) =
       failed_unlinks (review_handler cfg env (Some f))"
    unfolding tr by auto
  have 1: "review_route cfg env part = (Upload_stored (path f) # pre) @ [Respond r]"
    "responses (Upload_stored (path f) # pre) = []"
    "unlinks (Upload_stored (path f) # pre) \<in> {[(path f, unlink_error env = None)],
       [(path f, unlink_error env = None), (path f, unlink_result env 1 = None)]}"
    using h by (simp_all add: tr)
  from 1(3) have "(path f, unlink_error env = None) \<in> set (unlinks (Upload_stored (path f) # pre))"
    by auto
  from cleaned_after_quiet [OF 1(2) this, of r]
  have 2: "cleaned_before_response (path f) (review_route cfg env part)"
    by (simp add: 1(1))
  have 3: "failure_logs (review_route cfg env part) = failed_unlinks (review_route cfg env part)"
    using lg by (simp add: tr)
  from 1 2 3 route_independent [where cfg = cfg and u = u and u' = u' and env = env and part = part] show ?thesis by blast
qed

text \<open>C8 at the sample request answered with an object in place of the text: the upload is
  removed, the answer cannot be built, and the second \<open>unlink\<close> fails and is logged
  before the answer 500.\<close>

theorem cleanup_on_every_exit_witness:
  "upload_single object_reply_env (Some sample_part) = Mw_next (Some sample_file)
   \<and> map status (responses (review_route sample_config object_reply_env (Some sample_part))) = [500]
   \<and> unlinks (review_route sample_config object_reply_env (Some sample_part)) =
        [(path sample_file, True), (path sample_file, False)]
   \<and> cleaned_before_response (path sample_file)
        (review_route sample_config object_reply_env (Some sample_part))
   \<and> failure_logs (review_route sample_config object_reply_env (Some sample_part)) =
        [path sample_file]
   \<and> responses (review_route sample_config
        (object_reply_env\<lparr>unlink_error := Some enoent_error, unlink_retry_error := None\<rparr>)
        (Some sample_part)) =
      responses (review_route sample_config object_reply_env (Some sample_part))"
proof -
  have up: "upload_single object_reply_env (Some sample_part) = Mw_next (Some sample_file)"
    by (rule sample_upload_variants)
  have rs: "map status (responses (review_route sample_config object_reply_env (Some sample_part)))
      = [500]"
    by (simp add: eval_defs)
  then have ne: "responses (review_route sample_config object_reply_env (Some sample_part)) \<noteq> []"
    by auto
  have ul: "unlinks (review_route sample_config object_reply_env (Some sample_part)) =
        [(path sample_file, True), (path sample_file, False)]"
    by (simp add: eval_defs)
  note th = cleanup_on_every_exit [OF up ne, where u = "Some enoent_error" and u' = None]
  from th have a: "cleaned_before_response (path sample_file)
        (review_route sample_config object_reply_env (Some sample_part))"
    by blast
  from th have b: "failure_logs (review_route sample_config object_reply_env (Some sample_part)) =
      failed_unlinks (review_route sample_config object_reply_env (Some sample_part))"
    by blast
  have c: "failed_unlinks (review_route sample_config object_reply_env (Some sample_part)) =
      [path sample_file]"
    by (simp add: eval_defs)
  from th have d: "responses (review_route sample_config
        (object_reply_env\<lparr>unlink_error := Some enoent_error, unlink_retry_error := None\<rparr>)
        (Some sample_part)) =
      responses (review_route sample_config object_reply_env (Some sample_part))"
    by blast
  from up rs ul a b c d show ?thesis by simp
qed

text \<open>
  C9. A request without a file part is answered with status 400 and the body
  \<open>{"error": "No file uploaded"}\<close>; that response is the only effect: no file is read, the
  backend is not called and no Markdown file is written.
\<close>

theorem no_file_400:
  "review_route cfg env None =
     [Respond (Response 400 (Json [(''error'', JStr (lit ''No file uploaded''))]))]
   \<and> file_reads (review_route cfg env None) = []
   \<and> backend_calls (review_route cfg env None) = []
   \<and> artifact_writes (review_route cfg env None) = []"
  by (simp add: route_defs)

text \<open>
  C10. The emptiness test is on the trimmed content: an accepted upload whose content is
  only white space has the same trace as one whose content is empty, whatever its length.
  It is answered with the details \<open>File appears to be empty\<close>, the backend is not called
  and no Markdown file is written.
\<close>

theorem blank_like_empty:
  assumes "trim ws = []"
    and "upload_single env part = Mw_next (Some f)"
  shows "review_route cfg (env\<lparr>readFile_result := Inr ws\<rparr>) part =
         review_route cfg (env\<lparr>readFile_result := Inr []\<rparr>) part
         \<and> responses (review_route cfg (env\<lparr>readFile_result := Inr ws\<rparr>) part) =
             [Response 500 (Json
                [(''error'', JStr (lit ''Failed to generate review'')),
                 (''details'', JStr (lit ''File appears to be empty'')),
                 (''requestId'', JNum (requestId env))])]
         \<and> backend_calls (review_route cfg (env\<lparr>readFile_result := Inr ws\<rparr>) part) = []
         \<and> artifact_writes (review_route cfg (env\<lparr>readFile_result := Inr ws\<rparr>) part) = []"
proof -
  from upload_path_nonempty [OF assms(2)] have ne: "path f \<noteq> []" .
  have tr: "review_route cfg (env\<lparr>readFile_result := Inr c\<rparr>) part =
      [Upload_stored (path f), Fs_readFile (path f)]
      @ cleanupFile env 0 (path f)
      @ [Respond (Response 500 (Json
                [(''error'', JStr (lit ''Failed to generate review'')),
                 (''details'', JStr (lit ''File appears to be empty'')),
                 (''requestId'', JNum (requestId env))]))]"
    if "trim c = []" for c
    using that ne assms(2)
    by (simp add: review_route_def review_handler_def review_steps_def catch_block_def
        cleanupFile_def unlink_result_def)
  from tr [OF assms(1)] tr [of "[]"] show ?thesis by simp
qed

text \<open>C10 at a content of eight blanks.\<close>

theorem blank_like_empty_witness:
  "trim blank_content = [] \<and> length blank_content = 8
   \<and> upload_single sample_env (Some sample_part) = Mw_next (Some sample_file)
   \<and> review_route sample_config (sample_env\<lparr>readFile_result := Inr blank_content\<rparr>)
        (Some sample_part) =
      review_route sample_config (sample_env\<lparr>readFile_result := Inr []\<rparr>) (Some sample_part)
   \<and> responses (review_route sample_config (sample_env\<lparr>readFile_result := Inr blank_content\<rparr>)
        (Some sample_part)) =
        [Response 500 (Json
           [(''error'', JStr (lit ''Failed to generate review'')),
            (''details'', JStr (lit ''File appears to be empty'')),
            (''requestId'', JNum 1700000000000)])]"
proof -
  have bl: "trim blank_content = []"
    by (simp add: blank_content_def trim_def lit_def nl_def is_js_space_def)
  have len: "length blank_content = 8"
    by (simp add: blank_content_def nl_def)
  have up: "upload_single sample_env (Some sample_part) = Mw_next (Some sample_file)"
    by (rule sample_upload)
  have rid: "requestId sample_env = 1700000000000"
    by (simp add: sample_env_def)
  from blank_like_empty [OF bl up, of sample_config, unfolded rid] bl len up
  show ?thesis by blast
qed

end
